theory Spec2Isabelle
  imports Complex_Main "HOL-Library.Sublist"
begin

section \<open>JavaScript values\<close>

text \<open>
  Strings are byte lists holding UTF-8, as the source files themselves are stored.
  A JavaScript number is only stored and rendered here, never computed with; it is a
  \<open>real\<close>, and its rendering in a template literal is a function of the platform.
  A thrown value is an error object with its \<open>message\<close>.
\<close>

type_synonym number = real

datatype js_error =
    Error (message: string)
  | TypeError (message: string)
  | SyntaxError (message: string)
  | URIError (message: string)

text \<open>The arguments of one \<open>console.error\<close> call; the console is the list of such calls.\<close>

datatype log_arg = Str string | Err js_error

type_synonym console = "log_arg list list"

section \<open>The data model (types.ts)\<close>

text \<open>
  Modelled from the spec: the declarations \<open>WeatherData\<close> and \<open>GeminiInsight\<close> of
  \<open>types.ts\<close> are not among the sources. Their fields are the ones the spec lists for
  the provider's JSON body (\<open>name\<close>, \<open>sys.country\<close>, \<open>main.temp\<close>, \<open>main.feels_like\<close>,
  \<open>main.humidity\<close>, \<open>wind.speed\<close>, \<open>weather[0].description\<close>, \<open>weather[0].icon\<close>) and for
  the insight (\<open>summary\<close>, \<open>outfitAdvice\<close>, \<open>funFact\<close>), which are also the only fields
  the code reads. The array \<open>weather\<close> of the body is the field \<open>wd_weather\<close>, since
  \<open>weather\<close> names the state variable of the application below.
\<close>

record sys_t =
  country :: string

record main_t =
  temp :: number
  feels_like :: number
  humidity :: number

record wind_t =
  speed :: number

record condition =
  description :: string
  icon :: string

record WeatherData =
  name :: string
  sys :: sys_t
  main :: main_t
  wind :: wind_t
  wd_weather :: "condition list"

record GeminiInsight =
  summary :: string
  outfitAdvice :: string
  funFact :: string

section \<open>The platform\<close>

text \<open>
  What the browser and the SDK provide. A \<open>Response\<close> of \<open>fetch\<close> carries the HTTP
  status, the status text and what \<open>response.json()\<close> resolves to (or rejects with);
  its \<open>ok\<close> attribute is, by the Fetch standard, true exactly for a status in 200..299.
  The functions \<open>encodeURIComponent\<close>, the rendering of a number inside a template
  literal and \<open>JSON.parse\<close> are parameters. \<open>encodeURIComponent\<close> throws a
  \<open>URIError\<close> on a string with a lone surrogate. \<open>JSON.parse\<close> throws on a text that
  is not JSON; it gives \<open>None\<close> for the text \<open>null\<close>, and any other value is taken as
  a \<open>GeminiInsight\<close>, as the unchecked cast \<open>as GeminiInsight\<close> takes it. The body of
  a weather response is taken to have the documented shape, which the source does not
  validate.
\<close>

record Response =
  status :: nat
  statusText :: string
  json :: "js_error + WeatherData"

definition ok :: "Response \<Rightarrow> bool" where
  "ok response = (200 \<le> status response \<and> status response \<le> 299)"

record platform =
  encodeURIComponent :: "string \<Rightarrow> js_error + string"
  numberToString :: "number \<Rightarrow> string"
  JSON_parse :: "string \<Rightarrow> js_error + GeminiInsight option"

text \<open>The request and the response of \<open>ai.models.generateContent\<close>.\<close>

datatype Type = OBJECT | STRING

record GenerateContentParameters =
  model :: string
  contents :: string
  responseMimeType :: string
  responseSchema_type :: Type
  responseSchema_properties :: "(string \<times> Type) list"
  responseSchema_required :: "string list"

record GenerateContentResponse =
  response_text :: "string option"

section \<open>services/weatherService.ts\<close>

definition BASE_URL :: string where
  "BASE_URL = ''https://api.openweathermap.org/data/2.5/weather''"

text \<open>
  An \<open>async\<close> function is split at its \<open>await\<close>: the part that runs when it is
  called (the key check and the URL of the request it issues), and the part that runs
  when the request settles, with the outcome of \<open>fetch\<close>: a rejection or a response.
  When \<open>encodeURIComponent\<close> throws inside the template literal of the URL, the
  function throws before it calls \<open>fetch\<close>.
\<close>

definition getWeatherByCity_request :: "platform \<Rightarrow> string \<Rightarrow> string \<Rightarrow> js_error + string" where
  "getWeatherByCity_request p city apiKey =
     (if apiKey = [] then Inl (Error ''OpenWeather API Key is missing.'')
      else (case encodeURIComponent p city of
              Inl e \<Rightarrow> Inl e
            | Inr encoded \<Rightarrow>
                Inr (BASE_URL @ ''?q='' @ encoded @ ''&units=metric&appid='' @ apiKey)))"

definition getWeatherByCity_settled :: "js_error + Response \<Rightarrow> js_error + WeatherData" where
  "getWeatherByCity_settled outcome =
     (case outcome of
        Inl e \<Rightarrow> Inl e
      | Inr response \<Rightarrow>
          if \<not> ok response then
            (if status response = 404 then Inl (Error ''City not found. Please try again.'')
             else if status response = 401 then Inl (Error ''Invalid OpenWeather API Key.'')
             else Inl (Error (''Weather API Error: '' @ statusText response)))
          else json response)"

definition getWeatherByCity ::
  "platform \<Rightarrow> (string \<Rightarrow> js_error + Response) \<Rightarrow> string \<Rightarrow> string \<Rightarrow> js_error + WeatherData" where
  "getWeatherByCity p fetch city apiKey =
     (case getWeatherByCity_request p city apiKey of
        Inl e \<Rightarrow> Inl e
      | Inr url \<Rightarrow> getWeatherByCity_settled (fetch url))"

definition getWeatherByCoords_request :: "platform \<Rightarrow> number \<Rightarrow> number \<Rightarrow> string \<Rightarrow> js_error + string" where
  "getWeatherByCoords_request p lat lon apiKey =
     (if apiKey = [] then Inl (Error ''OpenWeather API Key is missing.'')
      else Inr (BASE_URL @ ''?lat='' @ numberToString p lat @ ''&lon='' @ numberToString p lon
                  @ ''&units=metric&appid='' @ apiKey))"

definition getWeatherByCoords_settled :: "js_error + Response \<Rightarrow> js_error + WeatherData" where
  "getWeatherByCoords_settled outcome =
     (case outcome of
        Inl e \<Rightarrow> Inl e
      | Inr response \<Rightarrow>
          if \<not> ok response then
            (if status response = 401 then Inl (Error ''Invalid OpenWeather API Key.'')
             else Inl (Error (''Weather API Error: '' @ statusText response)))
          else json response)"

definition getWeatherByCoords ::
  "platform \<Rightarrow> (string \<Rightarrow> js_error + Response) \<Rightarrow> number \<Rightarrow> number \<Rightarrow> string
     \<Rightarrow> js_error + WeatherData" where
  "getWeatherByCoords p fetch lat lon apiKey =
     (case getWeatherByCoords_request p lat lon apiKey of
        Inl e \<Rightarrow> Inl e
      | Inr url \<Rightarrow> getWeatherByCoords_settled (fetch url))"

section \<open>The Gemini service\<close>

text \<open>
  The module-level client \<open>ai\<close> exists exactly when the environment's \<open>API_KEY\<close> is a
  non-empty string. The client is what its \<open>generateContent\<close> answers to a request.
\<close>

type_synonym GoogleGenAI = "GenerateContentParameters \<Rightarrow> js_error + GenerateContentResponse"

definition NL :: string where
  "NL = [CHR 0x0A]"

definition DEG :: string where
  "DEG = [CHR 0xC2, CHR 0xB0]"

text \<open>
  The template literal of the prompt. Reading \<open>weather.weather[0].description\<close> of an
  empty array throws a \<open>TypeError\<close> (the message is the engine's).
\<close>

definition prompt :: "platform \<Rightarrow> WeatherData \<Rightarrow> js_error + string" where
  "prompt p weather =
     (case wd_weather weather of
        [] \<Rightarrow> Inl (TypeError ''Cannot read properties of undefined (reading description)'')
      | w0 # _ \<Rightarrow> Inr (
          NL @ ''    Current weather data for '' @ name weather @ '', '' @ country (sys weather) @ '':''
          @ NL @ ''    - Temperature: '' @ numberToString p (temp (main weather)) @ DEG
               @ ''C (Feels like '' @ numberToString p (feels_like (main weather)) @ DEG @ ''C)''
          @ NL @ ''    - Condition: '' @ description w0
          @ NL @ ''    - Humidity: '' @ numberToString p (humidity (main weather)) @ ''%''
          @ NL @ ''    - Wind: '' @ numberToString p (speed (wind weather)) @ '' m/s''
          @ NL
          @ NL @ ''    Provide a response in JSON format with the following fields:''
          @ NL @ ''    - summary: A witty, short summary of the weather (max 1 sentence).''
          @ NL @ ''    - outfitAdvice: Practical clothing advice based on the data.''
          @ NL @ ''    - funFact: A very short fun fact related to this kind of weather.''
          @ NL @ ''  ''))"

definition generateContent_parameters :: "string \<Rightarrow> GenerateContentParameters" where
  "generateContent_parameters pr =
     \<lparr> model = ''gemini-2.5-flash'',
       contents = pr,
       responseMimeType = ''application/json'',
       responseSchema_type = OBJECT,
       responseSchema_properties = [(''summary'', STRING), (''outfitAdvice'', STRING), (''funFact'', STRING)],
       responseSchema_required = [''summary'', ''outfitAdvice'', ''funFact''] \<rparr>"

text \<open>
  Called: the check of the client and the prompt, both before the \<open>try\<close>, then the
  request that the client's \<open>generateContent\<close> is given.
\<close>

definition generateWeatherInsight_request ::
  "platform \<Rightarrow> 'c option \<Rightarrow> WeatherData \<Rightarrow> js_error + ('c \<times> GenerateContentParameters)" where
  "generateWeatherInsight_request p ai weather =
     (case ai of
        None \<Rightarrow> Inl (Error ''Gemini API Key is missing. Insight features are disabled.'')
      | Some client \<Rightarrow>
          (case prompt p weather of
             Inl e \<Rightarrow> Inl e
           | Inr pr \<Rightarrow> Inr (client, generateContent_parameters pr)))"

text \<open>
  The body of the \<open>try\<close> once \<open>generateContent\<close> has settled: \<open>!text\<close> holds for an
  absent text and for the empty string.
\<close>

definition try_body ::
  "platform \<Rightarrow> js_error + GenerateContentResponse \<Rightarrow> js_error + GeminiInsight option" where
  "try_body p outcome =
     (case outcome of
        Inl e \<Rightarrow> Inl e
      | Inr response \<Rightarrow>
          (case response_text response of
             None \<Rightarrow> Inl (Error ''No response from Gemini'')
           | Some t \<Rightarrow>
               if t = [] then Inl (Error ''No response from Gemini'')
               else JSON_parse p t))"

text \<open>The \<open>catch\<close>: whatever the \<open>try\<close> threw is logged, and a new error is thrown.\<close>

definition generateWeatherInsight_settled ::
  "platform \<Rightarrow> console \<Rightarrow> js_error + GenerateContentResponse
     \<Rightarrow> (js_error + GeminiInsight option) \<times> console" where
  "generateWeatherInsight_settled p con outcome =
     (case try_body p outcome of
        Inr v \<Rightarrow> (Inr v, con)
      | Inl e \<Rightarrow> (Inl (Error ''Failed to generate AI insight.''),
                  con @ [[Str ''Gemini Insight Error:'', Err e]]))"

definition generateWeatherInsight ::
  "platform \<Rightarrow> GoogleGenAI option \<Rightarrow> WeatherData \<Rightarrow> console
     \<Rightarrow> (js_error + GeminiInsight option) \<times> console" where
  "generateWeatherInsight p ai weather con =
     (case generateWeatherInsight_request p ai weather of
        Inl e \<Rightarrow> (Inl e, con)
      | Inr (client, params) \<Rightarrow> generateWeatherInsight_settled p con (client params))"

section \<open>String.prototype.trim\<close>

text \<open>
  The white space and line terminators of ECMAScript, each in UTF-8: TAB, LF, VT, FF,
  CR, SPACE, U+00A0, U+1680, U+2000..U+200A, U+2028, U+2029, U+202F, U+205F, U+3000
  and U+FEFF.
\<close>

definition whitespace :: "string list" where
  "whitespace =
     [[CHR 0x09], [CHR 0x0A], [CHR 0x0B], [CHR 0x0C], [CHR 0x0D], [CHR 0x20],
      [CHR 0xC2, CHR 0xA0],
      [CHR 0xE1, CHR 0x9A, CHR 0x80],
      [CHR 0xE2, CHR 0x80, CHR 0x80], [CHR 0xE2, CHR 0x80, CHR 0x81],
      [CHR 0xE2, CHR 0x80, CHR 0x82], [CHR 0xE2, CHR 0x80, CHR 0x83],
      [CHR 0xE2, CHR 0x80, CHR 0x84], [CHR 0xE2, CHR 0x80, CHR 0x85],
      [CHR 0xE2, CHR 0x80, CHR 0x86], [CHR 0xE2, CHR 0x80, CHR 0x87],
      [CHR 0xE2, CHR 0x80, CHR 0x88], [CHR 0xE2, CHR 0x80, CHR 0x89],
      [CHR 0xE2, CHR 0x80, CHR 0x8A],
      [CHR 0xE2, CHR 0x80, CHR 0xA8], [CHR 0xE2, CHR 0x80, CHR 0xA9],
      [CHR 0xE2, CHR 0x80, CHR 0xAF],
      [CHR 0xE2, CHR 0x81, CHR 0x9F],
      [CHR 0xE3, CHR 0x80, CHR 0x80],
      [CHR 0xEF, CHR 0xBB, CHR 0xBF]]"

text \<open>The number of bytes of the white space character \<open>s\<close> starts with, 0 when it starts with none.\<close>

definition leading_ws :: "string \<Rightarrow> nat" where
  "leading_ws s = (case find (\<lambda>w. prefix w s) whitespace of None \<Rightarrow> 0 | Some w \<Rightarrow> length w)"

definition trailing_ws :: "string \<Rightarrow> nat" where
  "trailing_ws s = (case find (\<lambda>w. suffix w s) whitespace of None \<Rightarrow> 0 | Some w \<Rightarrow> length w)"

function trimStart :: "string \<Rightarrow> string" where
  "trimStart s = (if s = [] \<or> leading_ws s = 0 then s else trimStart (drop (leading_ws s) s))"
  by pat_completeness auto
termination
  by (relation "measure length") auto

function trimEnd :: "string \<Rightarrow> string" where
  "trimEnd s = (if s = [] \<or> trailing_ws s = 0 then s
                else trimEnd (take (length s - trailing_ws s) s))"
  by pat_completeness auto
termination
  by (relation "measure length") auto

declare trimStart.simps [simp del] trimEnd.simps [simp del]

definition trim :: "string \<Rightarrow> string" where
  "trim s = trimEnd (trimStart s)"

text \<open>A string of white space only is the concatenation of white space characters.\<close>

fun blank :: "string list \<Rightarrow> bool" where
  "blank [] = True"
| "blank (w # ws) = (w \<in> set whitespace \<and> blank ws)"

section \<open>App.tsx\<close>

text \<open>
  The component as \<open>App.tsx\<close> has it. Two other variants of the file among the sources
  obtain the key differently (from local storage, or from the environment alone) and
  return silently when it is missing; the variant with local storage also lets the
  user store and reset the key. The handlers modelled here are the same in all three.

  What the application is configured with: the two environment variables, and whether
  the browser has \<open>navigator.geolocation\<close>.
\<close>

record config =
  OPENWEATHER_API_KEY :: "string option"
  API_KEY :: "string option"
  geolocation :: bool

definition apiKey :: "config \<Rightarrow> string" where
  "apiKey c =
     (case OPENWEATHER_API_KEY c of
        None \<Rightarrow> ''072b5fb1fa34faa84a90bd9c35785838''
      | Some k \<Rightarrow> if k = [] then ''072b5fb1fa34faa84a90bd9c35785838'' else k)"

text \<open>The client of the Gemini service, built when the module is loaded; here it is opaque.\<close>

definition ai :: "config \<Rightarrow> unit option" where
  "ai c = (case API_KEY c of None \<Rightarrow> None | Some k \<Rightarrow> if k = [] then None else Some ())"

text \<open>
  A request the application has issued and that has not settled yet: the two kinds of
  \<open>fetch\<close>, the query for the current position, and the call of the Gemini client.
\<close>

datatype request =
    is_CityFetch: CityFetch string
  | is_PositionQuery: PositionQuery
  | is_CoordsFetch: CoordsFetch string
  | is_InsightCall: InsightCall GenerateContentParameters

text \<open>
  The six state variables of the component, the requests in flight and the console.
\<close>

record App_state =
  city :: string
  weather :: "WeatherData option"
  insight :: "GeminiInsight option"
  loading :: bool
  aiLoading :: bool
  error :: "string option"
  inflight :: "request list"
  console :: console

definition App_init :: App_state where
  "App_init =
     \<lparr> city = [], weather = None, insight = None, loading = False, aiLoading = False,
       error = None, inflight = [], console = [] \<rparr>"

text \<open>\<open>a || b\<close> on strings.\<close>

definition or_else :: "string \<Rightarrow> string \<Rightarrow> string" where
  "or_else a b = (if a = [] then b else a)"

text \<open>\<open>fetchWeather\<close>, up to its \<open>await\<close>. A throw of the call itself is caught at once.\<close>

definition fetchWeather :: "config \<Rightarrow> platform \<Rightarrow> App_state \<Rightarrow> string \<Rightarrow> App_state" where
  "fetchWeather c p s searchCity =
     (if apiKey c = [] then
        s\<lparr>error := Some ''Configuration Error: OPENWEATHER_API_KEY is missing.''\<rparr>
      else
        (let s1 = s\<lparr>loading := True, error := None, insight := None\<rparr> in
           (case getWeatherByCity_request p searchCity (apiKey c) of
              Inl err \<Rightarrow>
                s1\<lparr>error := Some (or_else (message err) ''Failed to fetch weather''),
                   weather := None, loading := False\<rparr>
            | Inr url \<Rightarrow> s1\<lparr>inflight := inflight s1 @ [CityFetch url]\<rparr>)))"

text \<open>\<open>fetchWeather\<close>, from its \<open>await\<close> on: \<open>try\<close>, \<open>catch\<close> and \<open>finally\<close>.\<close>

definition fetchWeather_settled :: "App_state \<Rightarrow> js_error + Response \<Rightarrow> App_state" where
  "fetchWeather_settled s outcome =
     (case getWeatherByCity_settled outcome of
        Inr data \<Rightarrow> s\<lparr>weather := Some data, loading := False\<rparr>
      | Inl err \<Rightarrow>
          s\<lparr>error := Some (or_else (message err) ''Failed to fetch weather''),
            weather := None, loading := False\<rparr>)"

definition fetchWeatherByLocation :: "config \<Rightarrow> App_state \<Rightarrow> App_state" where
  "fetchWeatherByLocation c s =
     (if apiKey c = [] then
        s\<lparr>error := Some ''Configuration Error: OPENWEATHER_API_KEY is missing.''\<rparr>
      else if \<not> geolocation c then
        s\<lparr>error := Some ''Geolocation is not supported by your browser''\<rparr>
      else
        s\<lparr>loading := True, error := None, insight := None,
          inflight := inflight s @ [PositionQuery]\<rparr>)"

text \<open>The success callback of \<open>getCurrentPosition\<close>, up to its \<open>await\<close>.\<close>

definition position_success :: "config \<Rightarrow> platform \<Rightarrow> App_state \<Rightarrow> number \<Rightarrow> number \<Rightarrow> App_state" where
  "position_success c p s latitude longitude =
     (case getWeatherByCoords_request p latitude longitude (apiKey c) of
        Inl err \<Rightarrow>
          s\<lparr>error := Some (or_else (message err) ''Failed to fetch weather from location''),
            loading := False\<rparr>
      | Inr url \<Rightarrow> s\<lparr>inflight := inflight s @ [CoordsFetch url]\<rparr>)"

text \<open>The success callback, from its \<open>await\<close> on.\<close>

definition position_success_settled :: "App_state \<Rightarrow> js_error + Response \<Rightarrow> App_state" where
  "position_success_settled s outcome =
     (case getWeatherByCoords_settled outcome of
        Inr data \<Rightarrow>
          (let s1 = s\<lparr>weather := Some data\<rparr>;
               s2 = (if name data \<noteq> [] then s1\<lparr>city := name data\<rparr> else s1)
           in s2\<lparr>loading := False\<rparr>)
      | Inl err \<Rightarrow>
          s\<lparr>error := Some (or_else (message err) ''Failed to fetch weather from location''),
            loading := False\<rparr>)"

text \<open>The error callback of \<open>getCurrentPosition\<close>.\<close>

definition position_error :: "App_state \<Rightarrow> App_state" where
  "position_error s = s\<lparr>error := Some ''Unable to retrieve your location'', loading := False\<rparr>"

definition handleSearch :: "config \<Rightarrow> platform \<Rightarrow> App_state \<Rightarrow> App_state" where
  "handleSearch c p s = (if trim (city s) \<noteq> [] then fetchWeather c p s (city s) else s)"

text \<open>
  \<open>handleGetInsight\<close>, up to its \<open>await\<close>. When the service throws before it calls the
  client, the \<open>catch\<close> and the \<open>finally\<close> run at once.
\<close>

definition handleGetInsight :: "config \<Rightarrow> platform \<Rightarrow> App_state \<Rightarrow> App_state" where
  "handleGetInsight c p s =
     (case weather s of
        None \<Rightarrow> s
      | Some w \<Rightarrow>
          (let s1 = s\<lparr>aiLoading := True\<rparr> in
             (case generateWeatherInsight_request p (ai c) w of
                Inl err \<Rightarrow> s1\<lparr>console := console s1 @ [[Err err]], aiLoading := False\<rparr>
              | Inr (client, params) \<Rightarrow> s1\<lparr>inflight := inflight s1 @ [InsightCall params]\<rparr>)))"

definition handleGetInsight_settled ::
  "platform \<Rightarrow> App_state \<Rightarrow> js_error + GenerateContentResponse \<Rightarrow> App_state" where
  "handleGetInsight_settled p s outcome =
     (case generateWeatherInsight_settled p (console s) outcome of
        (Inr data, con) \<Rightarrow> s\<lparr>console := con, insight := data, aiLoading := False\<rparr>
      | (Inl err, con) \<Rightarrow> s\<lparr>console := con @ [[Err err]], aiLoading := False\<rparr>)"

subsection \<open>Events\<close>

text \<open>
  What happens to the component: the user types into the city field, submits the
  form, presses one of the two buttons, or a request in flight settles with the outcome
  the platform gives it. A request settles only while it is in flight.
\<close>

datatype event =
    ChangeCity string
  | SubmitSearch
  | ClickLocation
  | ClickInsight
  | CitySettled string "js_error + Response"
  | PositionSuccess number number
  | PositionError
  | CoordsSettled string "js_error + Response"
  | InsightSettled GenerateContentParameters "js_error + GenerateContentResponse"

definition settle :: "request \<Rightarrow> App_state \<Rightarrow> App_state option" where
  "settle r s =
     (if r \<in> set (inflight s) then Some (s\<lparr>inflight := remove1 r (inflight s)\<rparr>) else None)"

fun step :: "config \<Rightarrow> platform \<Rightarrow> App_state \<Rightarrow> event \<Rightarrow> App_state option" where
  "step c p s (ChangeCity v) = Some (s\<lparr>city := v\<rparr>)"
| "step c p s SubmitSearch = Some (handleSearch c p s)"
| "step c p s ClickLocation = Some (fetchWeatherByLocation c s)"
| "step c p s ClickInsight = Some (handleGetInsight c p s)"
| "step c p s (CitySettled url outcome) =
     map_option (\<lambda>s'. fetchWeather_settled s' outcome) (settle (CityFetch url) s)"
| "step c p s (PositionSuccess latitude longitude) =
     map_option (\<lambda>s'. position_success c p s' latitude longitude) (settle PositionQuery s)"
| "step c p s PositionError = map_option position_error (settle PositionQuery s)"
| "step c p s (CoordsSettled url outcome) =
     map_option (\<lambda>s'. position_success_settled s' outcome) (settle (CoordsFetch url) s)"
| "step c p s (InsightSettled params outcome) =
     map_option (\<lambda>s'. handleGetInsight_settled p s' outcome) (settle (InsightCall params) s)"


text \<open>
  What the rendered page lets the user do: the submit button is disabled while
  \<open>loading\<close> or when the trimmed city is empty, the location button while \<open>loading\<close>;
  the insight button is rendered when there is weather and no insight, and disabled
  while \<open>aiLoading\<close>.
\<close>

fun rendered :: "App_state \<Rightarrow> event \<Rightarrow> bool" where
  "rendered s SubmitSearch = (\<not> (loading s \<or> trim (city s) = []))"
| "rendered s ClickLocation = (\<not> loading s)"
| "rendered s ClickInsight = (weather s \<noteq> None \<and> insight s = None \<and> \<not> aiLoading s)"
| "rendered s _ = True"

fun run_rendered :: "config \<Rightarrow> platform \<Rightarrow> App_state \<Rightarrow> event list \<Rightarrow> App_state option" where
  "run_rendered c p s [] = Some s"
| "run_rendered c p s (e # es) =
     (if rendered s e then
        (case step c p s e of None \<Rightarrow> None | Some s' \<Rightarrow> run_rendered c p s' es)
      else None)"

subsection \<open>Requests that overlap\<close>

text \<open>
  Nothing cancels a request. A weather lookup is in flight while one of its requests
  is: the fetch by city name, the query for the position or the fetch by coordinates.
\<close>

definition insight_in_flight :: "App_state \<Rightarrow> bool" where
  "insight_in_flight s = list_ex is_InsightCall (inflight s)"

definition lookup_in_flight :: "App_state \<Rightarrow> bool" where
  "lookup_in_flight s = list_ex (\<lambda>r. \<not> is_InsightCall r) (inflight s)"




section \<open>Concrete inputs\<close>

text \<open>
  The scenario of the specification: London, and a city the provider does not know.
  The platform of the examples renders the numbers that occur and leaves the two city
  names as they are, as \<open>encodeURIComponent\<close> does for letters and digits. A second
  platform has a city field with a lone surrogate in mind: its \<open>encodeURIComponent\<close>
  throws.
\<close>

definition london :: WeatherData where
  "london =
     \<lparr> name = ''London'', sys = \<lparr> country = ''GB'' \<rparr>,
       main = \<lparr> temp = 15, feels_like = 14, humidity = 80 \<rparr>,
       wind = \<lparr> speed = 3 \<rparr>,
       wd_weather = [\<lparr> description = ''light rain'', icon = ''10d'' \<rparr>] \<rparr>"

definition london_insight :: GeminiInsight where
  "london_insight =
     \<lparr> summary = ''Rain again.'', outfitAdvice = ''Take a coat.'', funFact = ''Rain falls.'' \<rparr>"

text \<open>The text of a response of the model: a JSON object with the three fields.\<close>

definition quoted :: "string \<Rightarrow> string" where
  "quoted t = [CHR 0x22] @ t @ [CHR 0x22]"

definition london_insight_json :: string where
  "london_insight_json =
     ''{'' @ quoted ''summary'' @ '':'' @ quoted ''Rain again.'' @ '',''
     @ quoted ''outfitAdvice'' @ '':'' @ quoted ''Take a coat.'' @ '',''
     @ quoted ''funFact'' @ '':'' @ quoted ''Rain falls.'' @ ''}''"

definition platform0 :: platform where
  "platform0 =
     \<lparr> encodeURIComponent = (\<lambda>s. Inr s),
       numberToString = (\<lambda>n. if n = 15 then ''15'' else if n = 14 then ''14''
                            else if n = 80 then ''80'' else if n = 3 then ''3''
                            else if n = 51 then ''51'' else ''0''),
       JSON_parse = (\<lambda>t. if t = london_insight_json then Inr (Some london_insight)
                          else Inl (SyntaxError ''Unexpected token'')) \<rparr>"

definition platform_malformed :: platform where
  "platform_malformed = platform0\<lparr>encodeURIComponent := (\<lambda>s. Inl (URIError ''URI malformed''))\<rparr>"

definition config0 :: config where
  "config0 = \<lparr> OPENWEATHER_API_KEY = Some ''key'', API_KEY = Some ''gemini'', geolocation = True \<rparr>"

definition london_response :: Response where
  "london_response = \<lparr> status = 200, statusText = ''OK'', json = Inr london \<rparr>"

definition not_found_response :: Response where
  "not_found_response =
     \<lparr> status = 404, statusText = ''Not Found'', json = Inl (SyntaxError ''not read'') \<rparr>"

definition unauthorized_response :: Response where
  "unauthorized_response =
     \<lparr> status = 401, statusText = ''Unauthorized'', json = Inl (SyntaxError ''not read'') \<rparr>"

definition server_error_response :: Response where
  "server_error_response =
     \<lparr> status = 500, statusText = ''Internal Server Error'', json = Inl (SyntaxError ''not read'') \<rparr>"

definition london_url :: string where
  "london_url = ''https://api.openweathermap.org/data/2.5/weather?q=London&units=metric&appid=key''"

definition invalid_city_url :: string where
  "invalid_city_url =
     ''https://api.openweathermap.org/data/2.5/weather?q=InvalidCity123&units=metric&appid=key''"

definition coords_url :: string where
  "coords_url =
     ''https://api.openweathermap.org/data/2.5/weather?lat=51&lon=0&units=metric&appid=key''"

definition london_prompt :: string where
  "london_prompt =
     NL @ ''    Current weather data for London, GB:''
     @ NL @ ''    - Temperature: 15'' @ DEG @ ''C (Feels like 14'' @ DEG @ ''C)''
     @ NL @ ''    - Condition: light rain''
     @ NL @ ''    - Humidity: 80%''
     @ NL @ ''    - Wind: 3 m/s''
     @ NL
     @ NL @ ''    Provide a response in JSON format with the following fields:''
     @ NL @ ''    - summary: A witty, short summary of the weather (max 1 sentence).''
     @ NL @ ''    - outfitAdvice: Practical clothing advice based on the data.''
     @ NL @ ''    - funFact: A very short fun fact related to this kind of weather.''
     @ NL @ ''  ''"

definition london_params :: GenerateContentParameters where
  "london_params = generateContent_parameters london_prompt"

definition insight_response :: GenerateContentResponse where
  "insight_response = \<lparr> response_text = Some london_insight_json \<rparr>"

text \<open>
  A \<open>fetch\<close> that answers one URL with a response and rejects every other request, and
  a client that gives every request one outcome.
\<close>

definition answering_only :: "string \<Rightarrow> Response \<Rightarrow> string \<Rightarrow> js_error + Response" where
  "answering_only url r u = (if u = url then Inr r else Inl (TypeError ''Failed to fetch''))"

definition client_answering :: "js_error + GenerateContentResponse \<Rightarrow> GoogleGenAI" where
  "client_answering outcome params = outcome"

definition no_text_response :: GenerateContentResponse where
  "no_text_response = \<lparr> response_text = None \<rparr>"

definition garbled_response :: GenerateContentResponse where
  "garbled_response = \<lparr> response_text = Some ''<html>'' \<rparr>"

definition london_shown :: App_state where
  "london_shown =
     \<lparr> city = ''London'', weather = Some london, insight = None, loading = False,
       aiLoading = False, error = None, inflight = [], console = [] \<rparr>"

section \<open>Facts about the definitions\<close>

lemmas input_defs = london_def london_insight_def quoted_def london_insight_json_def platform0_def config0_def london_response_def
  not_found_response_def unauthorized_response_def server_error_response_def london_url_def
  invalid_city_url_def coords_url_def london_prompt_def london_params_def insight_response_def
  london_shown_def App_init_def answering_only_def client_answering_def no_text_response_def
  platform_malformed_def
  garbled_response_def BASE_URL_def apiKey_def ai_def or_else_def

lemmas trim_defs = trim_def trimStart.simps trimEnd.simps leading_ws_def trailing_ws_def
  whitespace_def suffix_to_prefix

lemmas run_defs = handleSearch_def fetchWeather_def fetchWeather_settled_def
  fetchWeatherByLocation_def position_success_def position_success_settled_def position_error_def
  handleGetInsight_def handleGetInsight_settled_def settle_def getWeatherByCity_request_def
  getWeatherByCity_settled_def getWeatherByCoords_request_def getWeatherByCoords_settled_def ok_def
  generateWeatherInsight_request_def generateWeatherInsight_settled_def try_body_def prompt_def
  insight_in_flight_def lookup_in_flight_def Let_def

subsection \<open>Trimming a string of white space\<close>

lemma trimStart_Nil: "trimStart [] = []"
  by (simp add: trimStart.simps)

lemma trimEnd_Nil: "trimEnd [] = []"
  by (simp add: trimEnd.simps)

text \<open>
  No white space character is a prefix of another one, so the first match at the start
  of a string is the character the string starts with.
\<close>

lemma leading_ws_all: "list_all (\<lambda>w. leading_ws (w @ t) = length w \<and> w \<noteq> []) whitespace"
  apply (simp only: whitespace_def list.pred_inject)
  apply (intro conjI)
  apply (simp_all add: leading_ws_def whitespace_def)
  done

lemma leading_ws_append: "w \<in> set whitespace \<Longrightarrow> leading_ws (w @ t) = length w"
  using leading_ws_all[of t] by (simp add: list_all_iff)

lemma whitespace_nonempty: "w \<in> set whitespace \<Longrightarrow> w \<noteq> []"
  using leading_ws_all[of "[]"] by (auto simp add: list_all_iff)

lemma trimStart_blank: "blank ws \<Longrightarrow> trimStart (concat ws) = []"
proof (induction ws)
  case Nil
  then show ?case by (simp add: trimStart_Nil)
next
  case (Cons w ws)
  then have w: "w \<in> set whitespace" and b: "blank ws" by simp_all
  have "trimStart (w @ concat ws) = trimStart (drop (leading_ws (w @ concat ws)) (w @ concat ws))"
    using whitespace_nonempty[OF w] leading_ws_append[OF w, of "concat ws"]
    by (subst trimStart.simps) simp
  also have "\<dots> = trimStart (concat ws)"
    by (simp add: leading_ws_append[OF w])
  finally show ?case using Cons.IH[OF b] by simp
qed

lemma trim_blank: "blank ws \<Longrightarrow> trim (concat ws) = []"
  by (simp add: trim_def trimStart_blank trimEnd_Nil)

subsection \<open>The key is never empty\<close>

lemma apiKey_nonempty: "apiKey c \<noteq> []"
  by (simp add: apiKey_def split: option.splits)


text \<open>A lookup by city name issues its request, or fails at once and clears the snapshot.\<close>

lemma fetchWeather_issued:
  "getWeatherByCity_request p q (apiKey c) = Inr u \<Longrightarrow>
   fetchWeather c p s q =
     s\<lparr>loading := True, error := None, insight := None, inflight := inflight s @ [CityFetch u]\<rparr>"
  by (simp add: fetchWeather_def apiKey_nonempty Let_def)

lemma fetchWeather_thrown:
  "getWeatherByCity_request p q (apiKey c) = Inl e \<Longrightarrow>
   fetchWeather c p s q =
     s\<lparr>loading := False, error := Some (or_else (message e) ''Failed to fetch weather''),
       insight := None, weather := None\<rparr>"
  by (simp add: fetchWeather_def apiKey_nonempty Let_def)

lemma fetchWeather_city: "city (fetchWeather c p s q) = city s"
  by (cases "getWeatherByCity_request p q (apiKey c)")
    (simp_all add: fetchWeather_issued fetchWeather_thrown)



subsection \<open>Requests in flight\<close>



lemma settle_Some:
  "settle r s = Some s' \<longleftrightarrow> r \<in> set (inflight s) \<and> s' = s\<lparr>inflight := remove1 r (inflight s)\<rparr>"
  by (auto simp: settle_def)


subsection \<open>The invariant of runs without overlap\<close>














subsection \<open>The concrete requests\<close>

lemma invalid_city_request:
  "getWeatherByCity_request platform0 ''InvalidCity123'' ''key'' = Inr invalid_city_url"
  by (simp add: getWeatherByCity_request_def input_defs)

lemma london_request:
  "getWeatherByCity_request platform0 ''London'' ''key'' = Inr london_url"
  by (simp add: getWeatherByCity_request_def input_defs)

lemma coords_request:
  "getWeatherByCoords_request platform0 51 0 ''key'' = Inr coords_url"
  by (simp add: getWeatherByCoords_request_def input_defs)

text \<open>
  A city that \<open>encodeURIComponent\<close> refuses: the lookup fails at once, the snapshot is
  cleared, the message is shown and no request is in flight.
\<close>

lemma malformed_submit_fails_at_once:
  "handleSearch config0 platform_malformed london_shown =
     london_shown\<lparr>error := Some ''URI malformed'', weather := None\<rparr>"
  by (simp add: run_defs input_defs trim_defs)

lemma london_prompt_built: "prompt platform0 london = Inr london_prompt"
  by (simp add: prompt_def platform0_def london_def london_prompt_def)

lemma insight_failure:
  assumes "prompt p w = Inr pr" and "try_body p (client (generateContent_parameters pr)) = Inl cause"
  shows "generateWeatherInsight p (Some client) w con =
           (Inl (Error ''Failed to generate AI insight.''),
            con @ [[Str ''Gemini Insight Error:'', Err cause]])"
  using assms
  by (simp add: generateWeatherInsight_def generateWeatherInsight_request_def
        generateWeatherInsight_settled_def)

section \<open>The weather client\<close>

text \<open>
  C1. The mapping of the HTTP status depends on the lookup path exactly at 404. A
  lookup by city name whose request is answered with a 404 fails with
  \<open>City not found. Please try again.\<close>; a lookup by coordinates whose request is
  answered with a 404 fails with the generic \<open>Weather API Error:\<close> followed by the
  status text. On either path, a request answered with any other status that is
  neither 401 nor a success fails with that generic error and the status text of the
  response.
\<close>

theorem not_found_depends_on_lookup_path:
  "(getWeatherByCity_request p q k = Inr u \<and> fetch u = Inr r \<and> status r = 404 \<longrightarrow>
      getWeatherByCity p fetch q k = Inl (Error ''City not found. Please try again.''))
   \<and> (getWeatherByCoords_request p la lo k = Inr u' \<and> fetch' u' = Inr r' \<and> status r' = 404 \<longrightarrow>
      getWeatherByCoords p fetch' la lo k = Inl (Error (''Weather API Error: '' @ statusText r')))
   \<and> (getWeatherByCity_request p q k = Inr u \<and> fetch u = Inr r
        \<and> status r \<noteq> 404 \<and> status r \<noteq> 401 \<and> \<not> ok r \<longrightarrow>
      getWeatherByCity p fetch q k = Inl (Error (''Weather API Error: '' @ statusText r)))
   \<and> (getWeatherByCoords_request p la lo k = Inr u' \<and> fetch' u' = Inr r'
        \<and> status r' \<noteq> 404 \<and> status r' \<noteq> 401 \<and> \<not> ok r' \<longrightarrow>
      getWeatherByCoords p fetch' la lo k = Inl (Error (''Weather API Error: '' @ statusText r')))"
  by (simp add: getWeatherByCity_def getWeatherByCoords_def getWeatherByCity_settled_def
        getWeatherByCoords_settled_def ok_def)

text \<open>
  The theorem for a provider that answers 404 to the request of one path only, and for
  one that answers 500.
\<close>

theorem not_found_depends_on_lookup_path_witness:
  "getWeatherByCity platform0 (answering_only invalid_city_url not_found_response)
       ''InvalidCity123'' ''key''
     = Inl (Error ''City not found. Please try again.'')
   \<and> getWeatherByCoords platform0 (answering_only coords_url not_found_response) 51 0 ''key''
     = Inl (Error ''Weather API Error: Not Found'')
   \<and> getWeatherByCity platform0 (answering_only invalid_city_url server_error_response)
       ''InvalidCity123'' ''key''
     = Inl (Error ''Weather API Error: Internal Server Error'')
   \<and> getWeatherByCoords platform0 (answering_only coords_url server_error_response) 51 0 ''key''
     = Inl (Error ''Weather API Error: Internal Server Error'')"
proof -
  have a: "answering_only x r x = Inr r" for x r
    by (simp add: answering_only_def)
  have nf: "status not_found_response = 404" "statusText not_found_response = ''Not Found''"
    by (simp_all add: not_found_response_def)
  have se: "status server_error_response \<noteq> 404 \<and> status server_error_response \<noteq> 401
      \<and> \<not> ok server_error_response"
    "statusText server_error_response = ''Internal Server Error''"
    by (simp_all add: server_error_response_def ok_def)
  from not_found_depends_on_lookup_path[where p = platform0 and q = "''InvalidCity123''"
        and k = "''key''" and u = invalid_city_url and r = not_found_response
        and fetch = "answering_only invalid_city_url not_found_response"
        and la = 51 and lo = 0 and u' = coords_url and r' = not_found_response
        and fetch' = "answering_only coords_url not_found_response"]
    not_found_depends_on_lookup_path[where p = platform0 and q = "''InvalidCity123''"
        and k = "''key''" and u = invalid_city_url and r = server_error_response
        and fetch = "answering_only invalid_city_url server_error_response"
        and la = 51 and lo = 0 and u' = coords_url and r' = server_error_response
        and fetch' = "answering_only coords_url server_error_response"]
    invalid_city_request coords_request a nf se
  show ?thesis by simp
qed

text \<open>
  C5. On either lookup path, a request answered with a 401 makes the lookup fail with
  \<open>Invalid OpenWeather API Key.\<close>, and not with the generic error that carries the
  status text.
\<close>

theorem unauthorized_is_invalid_credentials:
  "(getWeatherByCity_request p q k = Inr u \<and> fetch u = Inr r \<and> status r = 401 \<longrightarrow>
      getWeatherByCity p fetch q k = Inl (Error ''Invalid OpenWeather API Key.'')
      \<and> getWeatherByCity p fetch q k \<noteq> Inl (Error (''Weather API Error: '' @ statusText r)))
   \<and> (getWeatherByCoords_request p la lo k = Inr u' \<and> fetch' u' = Inr r' \<and> status r' = 401 \<longrightarrow>
      getWeatherByCoords p fetch' la lo k = Inl (Error ''Invalid OpenWeather API Key.'')
      \<and> getWeatherByCoords p fetch' la lo k \<noteq> Inl (Error (''Weather API Error: '' @ statusText r')))"
  by (simp add: getWeatherByCity_def getWeatherByCoords_def getWeatherByCity_settled_def
        getWeatherByCoords_settled_def ok_def)

text \<open>
  The theorem for a provider that answers 401 to the request of one path only.
\<close>

theorem unauthorized_is_invalid_credentials_witness:
  "getWeatherByCity platform0 (answering_only london_url unauthorized_response) ''London'' ''key''
     = Inl (Error ''Invalid OpenWeather API Key.'')
   \<and> getWeatherByCoords platform0 (answering_only coords_url unauthorized_response) 51 0 ''key''
     = Inl (Error ''Invalid OpenWeather API Key.'')"
proof -
  have a: "answering_only x r x = Inr r" for x r
    by (simp add: answering_only_def)
  have s: "status unauthorized_response = 401"
    by (simp add: unauthorized_response_def)
  from unauthorized_is_invalid_credentials[where p = platform0 and q = "''London''"
        and k = "''key''" and u = london_url and r = unauthorized_response
        and fetch = "answering_only london_url unauthorized_response"
        and la = 51 and lo = 0 and u' = coords_url and r' = unauthorized_response
        and fetch' = "answering_only coords_url unauthorized_response"]
    london_request coords_request a s
  show ?thesis by simp
qed

section \<open>The insight generator\<close>

text \<open>
  C3. When the call of the Gemini client succeeds and the text of its response is
  absent or empty, \<open>generateWeatherInsight\<close> fails with the same error as for a failed
  call, \<open>Failed to generate AI insight.\<close>: the error \<open>No response from Gemini\<close> is
  thrown inside the \<open>try\<close>, so it is caught, logged and replaced. The caller cannot
  tell an empty response from a failed call.
\<close>

theorem empty_response_is_generation_failed:
  assumes "prompt p w = Inr pr" and "client (generateContent_parameters pr) = Inr r"
    and "response_text r = None \<or> response_text r = Some []"
  shows "generateWeatherInsight p (Some client) w con =
           (Inl (Error ''Failed to generate AI insight.''),
            con @ [[Str ''Gemini Insight Error:'', Err (Error ''No response from Gemini'')]])"
proof -
  have "try_body p (client (generateContent_parameters pr)) = Inl (Error ''No response from Gemini'')"
    using assms(2,3) by (auto simp: try_body_def)
  from insight_failure[where client = client, OF assms(1) this] show ?thesis .
qed

text \<open>
  The theorem for a client whose response has no text.
\<close>

theorem empty_response_is_generation_failed_witness:
  "generateWeatherInsight platform0 (Some (client_answering (Inr no_text_response))) london [] =
     (Inl (Error ''Failed to generate AI insight.''),
      [[Str ''Gemini Insight Error:'', Err (Error ''No response from Gemini'')]])"
proof -
  have c: "client_answering (Inr no_text_response) (generateContent_parameters london_prompt)
             = Inr no_text_response"
    by (simp add: client_answering_def)
  have t: "response_text no_text_response = None \<or> response_text no_text_response = Some []"
    by (simp add: no_text_response_def)
  from empty_response_is_generation_failed[where client = "client_answering (Inr no_text_response)"
        and con = "[]", OF london_prompt_built c t]
  show ?thesis by simp
qed

text \<open>
  An empty response and a failed call give the caller the very same error, so the
  empty response is not an outcome of its own.
\<close>

theorem empty_response_is_not_distinguished:
  "fst (generateWeatherInsight platform0 (Some (client_answering (Inr no_text_response))) london [])
     = Inl (Error ''Failed to generate AI insight.'')
   \<and> fst (generateWeatherInsight platform0 (Some (client_answering (Inl (Error ''fetch failed'')))) london [])
     = Inl (Error ''Failed to generate AI insight.'')"
  by (simp add: generateWeatherInsight_def generateWeatherInsight_request_def
        generateWeatherInsight_settled_def london_prompt_built try_body_def client_answering_def
        no_text_response_def)

text \<open>
  C6. When the call of the Gemini client is rejected (the network or the provider
  failed), or \<open>JSON.parse\<close> throws on the text of the response,
  \<open>generateWeatherInsight\<close> fails with the fixed \<open>Failed to generate AI insight.\<close>; the
  cause is written to the console and is no part of what the caller gets.
\<close>

theorem call_failure_is_generation_failed:
  assumes "prompt p w = Inr pr"
    and "client (generateContent_parameters pr) = Inl cause
       \<or> (\<exists>r t. client (generateContent_parameters pr) = Inr r \<and> response_text r = Some t
              \<and> t \<noteq> [] \<and> JSON_parse p t = Inl cause)"
  shows "generateWeatherInsight p (Some client) w con =
           (Inl (Error ''Failed to generate AI insight.''),
            con @ [[Str ''Gemini Insight Error:'', Err cause]])"
proof -
  have "try_body p (client (generateContent_parameters pr)) = Inl cause"
    using assms(2) by (auto simp: try_body_def)
  from insight_failure[where client = client, OF assms(1) this] show ?thesis .
qed

text \<open>
  The theorem for a rejected call and for a response that is not JSON.
\<close>

theorem call_failure_is_generation_failed_witness:
  "generateWeatherInsight platform0 (Some (client_answering (Inl (TypeError ''fetch failed'')))) london [] =
     (Inl (Error ''Failed to generate AI insight.''),
      [[Str ''Gemini Insight Error:'', Err (TypeError ''fetch failed'')]])
   \<and> generateWeatherInsight platform0 (Some (client_answering (Inr garbled_response))) london [] =
     (Inl (Error ''Failed to generate AI insight.''),
      [[Str ''Gemini Insight Error:'', Err (SyntaxError ''Unexpected token'')]])"
proof -
  have n: "client_answering (Inl (TypeError ''fetch failed'')) (generateContent_parameters london_prompt)
             = Inl (TypeError ''fetch failed'')
           \<or> (\<exists>r t. client_answering (Inl (TypeError ''fetch failed'')) (generateContent_parameters london_prompt) = Inr r
                 \<and> response_text r = Some t \<and> t \<noteq> [] \<and> JSON_parse platform0 t = Inl (TypeError ''fetch failed''))"
    by (simp add: client_answering_def)
  have g: "client_answering (Inr garbled_response) (generateContent_parameters london_prompt)
             = Inl (SyntaxError ''Unexpected token'')
           \<or> (\<exists>r t. client_answering (Inr garbled_response) (generateContent_parameters london_prompt) = Inr r
                 \<and> response_text r = Some t \<and> t \<noteq> [] \<and> JSON_parse platform0 t = Inl (SyntaxError ''Unexpected token''))"
    by (simp add: client_answering_def garbled_response_def platform0_def
          london_insight_json_def quoted_def)
  from call_failure_is_generation_failed[where con = "[]"
        and client = "client_answering (Inl (TypeError ''fetch failed''))", OF london_prompt_built n]
    call_failure_is_generation_failed[where con = "[]"
        and client = "client_answering (Inr garbled_response)", OF london_prompt_built g]
  show ?thesis by simp
qed

text \<open>
  C9. Without a client, \<open>generateWeatherInsight\<close> fails with
  \<open>Gemini API Key is missing. Insight features are disabled.\<close> and logs nothing: the
  check stands before the \<open>try\<close>, so the error is not replaced. With a client, a
  response without text or with an empty text, a rejected call, and a text on which
  \<open>JSON.parse\<close> throws all make it fail, and with the one error
  \<open>Failed to generate AI insight.\<close>; no failure after the request is built reaches
  the caller as any other error.
\<close>

theorem missing_client_is_not_rewrapped:
  "generateWeatherInsight p None w con =
      (Inl (Error ''Gemini API Key is missing. Insight features are disabled.''), con)
   \<and> (prompt p w = Inr pr \<and> client (generateContent_parameters pr) = Inr r
        \<and> (response_text r = None \<or> response_text r = Some []) \<longrightarrow>
      fst (generateWeatherInsight p (Some client) w con) = Inl (Error ''Failed to generate AI insight.''))
   \<and> (prompt p w = Inr pr \<and> client (generateContent_parameters pr) = Inl cause \<longrightarrow>
      fst (generateWeatherInsight p (Some client) w con) = Inl (Error ''Failed to generate AI insight.''))
   \<and> (prompt p w = Inr pr \<and> client (generateContent_parameters pr) = Inr r
        \<and> response_text r = Some t \<and> t \<noteq> [] \<and> JSON_parse p t = Inl cause \<longrightarrow>
      fst (generateWeatherInsight p (Some client) w con) = Inl (Error ''Failed to generate AI insight.''))
   \<and> (prompt p w = Inr pr \<and> fst (generateWeatherInsight p (Some client) w con) = Inl e \<longrightarrow>
      e = Error ''Failed to generate AI insight.'')"
proof -
  have fixed: "fst (generateWeatherInsight p (Some client) w con)
      = Inl (Error ''Failed to generate AI insight.'')"
    if "prompt p w = Inr pr" "try_body p (client (generateContent_parameters pr)) = Inl x" for x
    using insight_failure[where client = client, OF that] by simp
  have none: "generateWeatherInsight p None w con =
      (Inl (Error ''Gemini API Key is missing. Insight features are disabled.''), con)"
    by (simp add: generateWeatherInsight_def generateWeatherInsight_request_def)
  have empty: "try_body p (client (generateContent_parameters pr)) = Inl (Error ''No response from Gemini'')"
    if "client (generateContent_parameters pr) = Inr r"
      "response_text r = None \<or> response_text r = Some []"
    using that by (auto simp: try_body_def)
  have rejected: "try_body p (client (generateContent_parameters pr)) = Inl cause"
    if "client (generateContent_parameters pr) = Inl cause"
    using that by (simp add: try_body_def)
  have parse: "try_body p (client (generateContent_parameters pr)) = Inl cause"
    if "client (generateContent_parameters pr) = Inr r" "response_text r = Some t" "t \<noteq> []"
      "JSON_parse p t = Inl cause"
    using that by (simp add: try_body_def)
  have only: "e = Error ''Failed to generate AI insight.''"
    if "prompt p w = Inr pr" "fst (generateWeatherInsight p (Some client) w con) = Inl e"
    using that
    by (auto simp: generateWeatherInsight_def generateWeatherInsight_request_def
          generateWeatherInsight_settled_def split: sum.splits)
  show ?thesis
    using none fixed empty rejected parse only by blast
qed

text \<open>
  The theorem without a client, and with clients that answer no text, reject, or
  answer a text that is not JSON.
\<close>

theorem missing_client_is_not_rewrapped_witness:
  "generateWeatherInsight platform0 None london [] =
      (Inl (Error ''Gemini API Key is missing. Insight features are disabled.''), [])
   \<and> fst (generateWeatherInsight platform0 (Some (client_answering (Inr no_text_response))) london [])
        = Inl (Error ''Failed to generate AI insight.'')
   \<and> fst (generateWeatherInsight platform0 (Some (client_answering (Inl (TypeError ''fetch failed'')))) london [])
        = Inl (Error ''Failed to generate AI insight.'')
   \<and> fst (generateWeatherInsight platform0 (Some (client_answering (Inr garbled_response))) london [])
        = Inl (Error ''Failed to generate AI insight.'')"
proof -
  have c1: "client_answering (Inr no_text_response) (generateContent_parameters london_prompt)
      = Inr no_text_response"
    and c2: "client_answering (Inl (TypeError ''fetch failed'')) (generateContent_parameters london_prompt)
      = Inl (TypeError ''fetch failed'')"
    and c3: "client_answering (Inr garbled_response) (generateContent_parameters london_prompt)
      = Inr garbled_response"
    by (simp_all add: client_answering_def)
  have n: "response_text no_text_response = None"
    by (simp add: no_text_response_def)
  have g: "response_text garbled_response = Some ''<html>''" "''<html>'' \<noteq> []"
    "JSON_parse platform0 ''<html>'' = Inl (SyntaxError ''Unexpected token'')"
    by (simp_all add: garbled_response_def platform0_def london_insight_json_def quoted_def)
  have a: "generateWeatherInsight platform0 None london [] =
      (Inl (Error ''Gemini API Key is missing. Insight features are disabled.''), [])"
    using missing_client_is_not_rewrapped[where p = platform0 and w = london and con = "[]"]
    by blast
  have b: "fst (generateWeatherInsight platform0 (Some (client_answering (Inr no_text_response))) london [])
        = Inl (Error ''Failed to generate AI insight.'')"
    using missing_client_is_not_rewrapped[where p = platform0 and w = london and con = "[]"
      and pr = london_prompt and client = "client_answering (Inr no_text_response)"
      and r = no_text_response] london_prompt_built c1 n
    by blast
  have d: "fst (generateWeatherInsight platform0 (Some (client_answering (Inl (TypeError ''fetch failed'')))) london [])
        = Inl (Error ''Failed to generate AI insight.'')"
    using missing_client_is_not_rewrapped[where p = platform0 and w = london and con = "[]"
      and pr = london_prompt and client = "client_answering (Inl (TypeError ''fetch failed''))"
      and cause = "TypeError ''fetch failed''"] london_prompt_built c2
    by blast
  have e: "fst (generateWeatherInsight platform0 (Some (client_answering (Inr garbled_response))) london [])
        = Inl (Error ''Failed to generate AI insight.'')"
    using missing_client_is_not_rewrapped[where p = platform0 and w = london and con = "[]"
      and pr = london_prompt and client = "client_answering (Inr garbled_response)"
      and r = garbled_response and t = "''<html>''" and cause = "SyntaxError ''Unexpected token''"]
      london_prompt_built c3 g
    by blast
  from a b d e show ?thesis by blast
qed

section \<open>The component\<close>

text \<open>
  C2. A failed weather lookup clears the snapshot on screen and shows one message.
  The lookup by city name does so; the lookup by location does not clear the
  snapshot. With London on screen, the user asks for the current location, the
  position arrives and the provider answers 500: the message is shown and London
  stays.
\<close>

theorem failed_location_lookup_keeps_snapshot:
  "run_rendered config0 platform0 App_init
     [ChangeCity ''London'', SubmitSearch, CitySettled london_url (Inr london_response),
      ClickLocation, PositionSuccess 51 0, CoordsSettled coords_url (Inr server_error_response)]
   = Some \<lparr> city = ''London'', weather = Some london, insight = None, loading = False,
            aiLoading = False, error = Some ''Weather API Error: Internal Server Error'',
            inflight = [], console = [] \<rparr>"
  by (simp add: run_defs input_defs trim_defs)




text \<open>
  C7. When the city is empty or consists of white space only, submitting the form
  issues no request and changes nothing: the state, with its requests in flight, is
  the same.
\<close>

theorem blank_city_submit_changes_nothing:
  assumes "blank ws" and "city s = concat ws"
  shows "handleSearch c p s = s \<and> step c p s SubmitSearch = Some s"
  using trim_blank[OF assms(1)] assms(2) by (simp add: handleSearch_def)

text \<open>
  The theorem for a space, a tab and a no-break space, and for the empty city.
\<close>

theorem blank_city_submit_changes_nothing_witness:
  "handleSearch config0 platform0 (london_shown\<lparr>city := '' '' @ [CHR 0x09] @ [CHR 0xC2, CHR 0xA0]\<rparr>)
     = london_shown\<lparr>city := '' '' @ [CHR 0x09] @ [CHR 0xC2, CHR 0xA0]\<rparr>
   \<and> handleSearch config0 platform0 App_init = App_init"
proof -
  have b: "blank ['' '', [CHR 0x09], [CHR 0xC2, CHR 0xA0]]"
    by (simp add: whitespace_def)
  have c: "city (london_shown\<lparr>city := '' '' @ [CHR 0x09] @ [CHR 0xC2, CHR 0xA0]\<rparr>)
             = concat ['' '', [CHR 0x09], [CHR 0xC2, CHR 0xA0]]"
    by simp
  have b0: "blank []"
    by simp
  have c0: "city App_init = concat []"
    by (simp add: App_init_def)
  from blank_city_submit_changes_nothing[OF b c, of config0 platform0]
    blank_city_submit_changes_nothing[OF b0 c0, of config0 platform0]
  show ?thesis by simp
qed

text \<open>
  C8. When no snapshot is held, \<open>handleGetInsight\<close> returns at once: the Gemini
  client is not called and the state is the same.
\<close>

theorem insight_without_snapshot_changes_nothing:
  assumes "weather s = None"
  shows "handleGetInsight c p s = s \<and> step c p s ClickInsight = Some s"
  using assms by (simp add: handleGetInsight_def)

text \<open>
  The theorem in the initial state.
\<close>

theorem insight_without_snapshot_changes_nothing_witness:
  "handleGetInsight config0 platform0 App_init = App_init
   \<and> step config0 platform0 App_init ClickInsight = Some App_init"
proof -
  have "weather App_init = None"
    by (simp add: App_init_def)
  from insight_without_snapshot_changes_nothing[OF this, of config0 platform0]
  show ?thesis .
qed

text \<open>
  C10. When a lookup by coordinates succeeds and the name of the snapshot is not
  empty, the city field is set to that name. The lookup by city name never changes
  the city field: not when it starts, and not when it settles.
\<close>

theorem coordinate_lookup_sets_city:
  "(step c p s (CoordsSettled u outcome) = Some s' \<and> getWeatherByCoords_settled outcome = Inr data
      \<and> name data \<noteq> [] \<longrightarrow> city s' = name data)
   \<and> city (fetchWeather c p s q) = city s
   \<and> city (handleSearch c p s) = city s
   \<and> city (fetchWeather_settled s outcome') = city s
   \<and> (step c p s (CitySettled u' outcome') = Some s'' \<longrightarrow> city s'' = city s)"
proof -
  have settled: "city (fetchWeather_settled x o') = city x" for x o'
    by (simp add: fetchWeather_settled_def split: sum.splits)
  show ?thesis
    by (auto simp: fetchWeather_city handleSearch_def settled settle_Some
          position_success_settled_def)
qed

text \<open>
  The theorem for a field that says Paris: London arrives by coordinates, and by name.
\<close>

theorem coordinate_lookup_sets_city_witness:
  "step config0 platform0 (london_shown\<lparr>city := ''Paris'', inflight := [CoordsFetch coords_url]\<rparr>)
      (CoordsSettled coords_url (Inr london_response))
     = Some (london_shown\<lparr>city := ''London''\<rparr>)
   \<and> city (london_shown\<lparr>city := ''London''\<rparr>) = name london
   \<and> step config0 platform0 (london_shown\<lparr>city := ''Paris'', inflight := [CityFetch london_url]\<rparr>)
      (CitySettled london_url (Inr london_response))
     = Some (london_shown\<lparr>city := ''Paris''\<rparr>)
   \<and> city (london_shown\<lparr>city := ''Paris''\<rparr>)
     = city (london_shown\<lparr>city := ''Paris'', inflight := [CityFetch london_url]\<rparr>)"
proof -
  have a: "step config0 platform0 (london_shown\<lparr>city := ''Paris'', inflight := [CoordsFetch coords_url]\<rparr>)
      (CoordsSettled coords_url (Inr london_response)) = Some (london_shown\<lparr>city := ''London''\<rparr>)"
    by (simp add: run_defs input_defs)
  have b: "getWeatherByCoords_settled (Inr london_response) = Inr london"
    by (simp add: getWeatherByCoords_settled_def ok_def london_response_def)
  have n: "name london \<noteq> []"
    by (simp add: london_def)
  have d: "step config0 platform0 (london_shown\<lparr>city := ''Paris'', inflight := [CityFetch london_url]\<rparr>)
      (CitySettled london_url (Inr london_response)) = Some (london_shown\<lparr>city := ''Paris''\<rparr>)"
    by (simp add: run_defs input_defs)
  from a b n d
    coordinate_lookup_sets_city[where c = config0 and p = platform0
      and s = "london_shown\<lparr>city := ''Paris'', inflight := [CoordsFetch coords_url]\<rparr>"
      and u = coords_url and outcome = "Inr london_response"
      and s' = "london_shown\<lparr>city := ''London''\<rparr>" and data = london]
    coordinate_lookup_sets_city[where c = config0 and p = platform0
      and s = "london_shown\<lparr>city := ''Paris'', inflight := [CityFetch london_url]\<rparr>"
      and u' = london_url and outcome' = "Inr london_response"
      and s'' = "london_shown\<lparr>city := ''Paris''\<rparr>"]
  show ?thesis by blast
qed

end
